theory Spec2Isabelle
  imports Main
begin

section \<open>Python method calls as state transformers\<close>

text \<open>
  The module under verification is \<^verbatim>\<open>vspreview/toolbars/comp/settings.py\<close>:
  \<^verbatim>\<open>
  class CompSettings(AbstractToolbarSettings):
      __slots__ = ()

      def setup_ui(self) -> None:
          super().setup_ui()

      def set_defaults(self) -> None:
          pass
  \<close>
  A method call runs on the state of the host (the attribute store of the panel and the
  whole widget tree, type \<open>'s\<close>), and ends by returning a value or by raising an
  exception; either way the state it leaves behind is the one it has reached by then.
  The base class is code of the GUI layer that is not part of the module, so nothing is
  assumed of its methods: a call of one may have several possible results, or none
  (a call that never comes back to its caller). A call is therefore a function from the
  state before to the set of its possible results.
\<close>

datatype 'v pyvalue = PyNone | PyObj 'v

datatype ('e, 'a) outcome = Raise 'e | Return 'a

type_synonym ('e, 'a, 's) py = "'s \<Rightarrow> (('e, 'a) outcome \<times> 's) set"

definition py_return :: "'a \<Rightarrow> ('e, 'a, 's) py" where
  "py_return a s = {(Return a, s)}"

text \<open>
  Sequencing: an exception raised by the first part ends the whole computation with that
  exception, in the state the first part has reached; nothing here catches it.
\<close>

definition py_bind :: "('e, 'a, 's) py \<Rightarrow> ('a \<Rightarrow> ('e, 'b, 's) py) \<Rightarrow> ('e, 'b, 's) py" where
  "py_bind m f s =
     (\<Union>(r, s') \<in> m s. case r of Raise e \<Rightarrow> {(Raise e, s')} | Return a \<Rightarrow> f a s')"

text \<open>The statement \<^verbatim>\<open>pass\<close>.\<close>

definition py_pass :: "('e, unit, 's) py" where
  "py_pass = py_return ()"

text \<open>An expression statement evaluates the expression and drops its value.\<close>

definition expr_stmt :: "('e, 'a, 's) py \<Rightarrow> ('e, unit, 's) py" where
  "expr_stmt m = py_bind m (\<lambda>_. py_return ())"

text \<open>
  A \<^verbatim>\<open>def\<close> whose body has no \<^verbatim>\<open>return\<close> statement: control falls off the
  end of the body and the call returns \<^verbatim>\<open>None\<close>.
\<close>

definition py_def :: "('e, unit, 's) py \<Rightarrow> ('e, 'v pyvalue, 's) py" where
  "py_def body = py_bind body (\<lambda>_. py_return PyNone)"

text \<open>
  What a caller can tell of a call that discards the returned value: whether it raised
  (and what), and the state it left.
\<close>

primrec raised :: "('e, 'a) outcome \<Rightarrow> 'e option" where
  "raised (Raise e) = Some e"
| "raised (Return a) = None"

definition observable :: "(('e, 'a) outcome \<times> 's) set \<Rightarrow> ('e option \<times> 's) set" where
  "observable R = (\<lambda>(r, s'). (raised r, s')) ` R"

text \<open>At most one possible result from state \<open>s\<close>.\<close>

definition deterministic_at :: "('e, 'a, 's) py \<Rightarrow> 's \<Rightarrow> bool" where
  "deterministic_at m s = (\<forall>x \<in> m s. \<forall>y \<in> m s. x = y)"

section \<open>Class declarations and instance layout\<close>

text \<open>
  A class body either has no \<^verbatim>\<open>__slots__\<close> assignment or assigns a sequence of
  names. The layout of an instance is the set of slot names it has storage for, and whether
  it has a \<^verbatim>\<open>__dict__\<close> and a \<^verbatim>\<open>__weakref__\<close>. A subclass starts from the
  layout of its base: without \<^verbatim>\<open>__slots__\<close> its instances get both a
  \<^verbatim>\<open>__dict__\<close> and a \<^verbatim>\<open>__weakref__\<close>; with it they get exactly the
  names listed.
\<close>

datatype slots_decl = NoSlots | Slots "string list"

record layout =
  slot_names :: "string set"
  has_dict :: bool
  has_weakref :: bool

fun extend_layout :: "layout \<Rightarrow> slots_decl \<Rightarrow> layout" where
  "extend_layout L NoSlots = L\<lparr>has_dict := True, has_weakref := True\<rparr>"
| "extend_layout L (Slots ns) =
     \<lparr>slot_names = slot_names L \<union> (set ns - {''__dict__'', ''__weakref__''}),
      has_dict = (has_dict L \<or> ''__dict__'' \<in> set ns),
      has_weakref = (has_weakref L \<or> ''__weakref__'' \<in> set ns)\<rparr>"

section \<open>The base class\<close>

text \<open>
  \<^verbatim>\<open>AbstractToolbarSettings\<close> is imported from \<^verbatim>\<open>...core\<close> and its source is not
  part of the module. It is a parameter of everything below: the layout of its instances
  and its two methods, each an arbitrary call.
\<close>

record ('e, 'v, 's) AbstractToolbarSettings =
  AbstractToolbarSettings_layout :: layout
  AbstractToolbarSettings_setup_ui :: "('e, 'v pyvalue, 's) py"
  AbstractToolbarSettings_set_defaults :: "('e, 'v pyvalue, 's) py"

section \<open>CompSettings\<close>

text \<open>\<^verbatim>\<open>__slots__ = ()\<close>\<close>

definition CompSettings_slots :: slots_decl where
  "CompSettings_slots = Slots []"

definition CompSettings_layout :: "('e, 'v, 's) AbstractToolbarSettings \<Rightarrow> layout" where
  "CompSettings_layout B = extend_layout (AbstractToolbarSettings_layout B) CompSettings_slots"

text \<open>
  \<^verbatim>\<open>def setup_ui(self) -> None: super().setup_ui()\<close>. Inside \<^verbatim>\<open>CompSettings\<close>,
  \<^verbatim>\<open>super()\<close> looks the method up in the class that follows \<^verbatim>\<open>CompSettings\<close>
  in the resolution order of the instance, which is the base class.
\<close>

definition CompSettings_setup_ui ::
    "('e, 'v, 's) AbstractToolbarSettings \<Rightarrow> ('e, 'v pyvalue, 's) py" where
  "CompSettings_setup_ui B = py_def (expr_stmt (AbstractToolbarSettings_setup_ui B))"

text \<open>\<^verbatim>\<open>def set_defaults(self) -> None: pass\<close>\<close>

definition CompSettings_set_defaults ::
    "('e, 'v, 's) AbstractToolbarSettings \<Rightarrow> ('e, 'v pyvalue, 's) py" where
  "CompSettings_set_defaults B = py_def py_pass"

section \<open>Calls made by the host\<close>

text \<open>
  The host calls the two hooks by name on an instance; the class of the instance decides
  which body runs. An instance of the base class runs the base methods, an instance of
  \<^verbatim>\<open>CompSettings\<close> the two overrides.
\<close>

datatype cls = AbstractToolbarSettings_cls | CompSettings_cls

datatype hook = Setup_ui | Set_defaults

fun invoke ::
    "('e, 'v, 's) AbstractToolbarSettings \<Rightarrow> cls \<Rightarrow> hook \<Rightarrow> ('e, 'v pyvalue, 's) py" where
  "invoke B AbstractToolbarSettings_cls Setup_ui = AbstractToolbarSettings_setup_ui B"
| "invoke B AbstractToolbarSettings_cls Set_defaults = AbstractToolbarSettings_set_defaults B"
| "invoke B CompSettings_cls Setup_ui = CompSettings_setup_ui B"
| "invoke B CompSettings_cls Set_defaults = CompSettings_set_defaults B"

text \<open>
  A sequence of hook calls on one instance of class \<open>c\<close>, written one after the other
  as statements: each returned value is dropped, and an exception ends the sequence.
\<close>

fun run ::
    "('e, 'v, 's) AbstractToolbarSettings \<Rightarrow> cls \<Rightarrow> hook list \<Rightarrow> ('e, unit, 's) py" where
  "run B c [] = py_return ()"
| "run B c (h # hs) = py_bind (invoke B c h) (\<lambda>_. run B c hs)"

section \<open>Two concrete base classes\<close>

text \<open>
  A base class over a state that is one counter: its \<^verbatim>\<open>setup_ui\<close> adds one widget
  (the counter goes up by one) and its \<^verbatim>\<open>set_defaults\<close> resets the counter to zero.
\<close>

definition counting_base :: "(string, unit, nat) AbstractToolbarSettings" where
  "counting_base =
     \<lparr>AbstractToolbarSettings_layout =
        \<lparr>slot_names = {''vlayout''}, has_dict = False, has_weakref = False\<rparr>,
      AbstractToolbarSettings_setup_ui = (\<lambda>n. {(Return PyNone, Suc n)}),
      AbstractToolbarSettings_set_defaults = (\<lambda>n. {(Return PyNone, 0)})\<rparr>"

text \<open>
  A base class whose \<^verbatim>\<open>setup_ui\<close> raises once two widgets are there, after having
  counted the attempt, and whose \<^verbatim>\<open>set_defaults\<close> returns an object.
\<close>

definition failing_base :: "(string, unit, nat) AbstractToolbarSettings" where
  "failing_base =
     \<lparr>AbstractToolbarSettings_layout =
        \<lparr>slot_names = {}, has_dict = True, has_weakref = True\<rparr>,
      AbstractToolbarSettings_setup_ui =
        (\<lambda>n. if n < 2 then {(Return (PyObj ()), Suc n)} else {(Raise ''RuntimeError'', Suc n)}),
      AbstractToolbarSettings_set_defaults = (\<lambda>n. {(Return (PyObj ()), n)})\<rparr>"

section \<open>Laws of sequencing\<close>

text \<open>Membership in a sequence: the first part raised, or it returned and the rest ran.\<close>

lemma in_py_bind:
  "x \<in> py_bind m f s \<longleftrightarrow>
     (\<exists>e s'. (Raise e, s') \<in> m s \<and> x = (Raise e, s')) \<or>
     (\<exists>a s'. (Return a, s') \<in> m s \<and> x \<in> f a s')"
proof
  assume "x \<in> py_bind m f s"
  then obtain r s' where in_m: "(r, s') \<in> m s"
    and in_rest: "x \<in> (case r of Raise e \<Rightarrow> {(Raise e, s')} | Return a \<Rightarrow> f a s')"
    unfolding py_bind_def by auto
  then show "(\<exists>e s'. (Raise e, s') \<in> m s \<and> x = (Raise e, s')) \<or>
     (\<exists>a s'. (Return a, s') \<in> m s \<and> x \<in> f a s')"
    by (cases r) auto
next
  assume "(\<exists>e s'. (Raise e, s') \<in> m s \<and> x = (Raise e, s')) \<or>
     (\<exists>a s'. (Return a, s') \<in> m s \<and> x \<in> f a s')"
  then show "x \<in> py_bind m f s"
    unfolding py_bind_def by force
qed

lemma py_bind_return_left: "py_bind (py_return a) f = f a"
  by (rule ext) (simp add: py_bind_def py_return_def)

lemma py_bind_return_right: "py_bind m py_return = m"
proof (rule ext, rule set_eqI)
  fix s x
  show "x \<in> py_bind m py_return s \<longleftrightarrow> x \<in> m s"
  proof (cases x)
    case (Pair r s')
    then show ?thesis
      by (cases r) (auto simp: in_py_bind py_return_def)
  qed
qed

lemma py_bind_assoc: "py_bind (py_bind m f) g = py_bind m (\<lambda>a. py_bind (f a) g)"
proof (rule ext, rule set_eqI)
  fix s x
  show "x \<in> py_bind (py_bind m f) g s \<longleftrightarrow> x \<in> py_bind m (\<lambda>a. py_bind (f a) g) s"
    by (simp only: in_py_bind) blast
qed

section \<open>The two overrides, unfolded\<close>

lemma set_defaults_is_return: "CompSettings_set_defaults B = py_return PyNone"
  by (simp add: CompSettings_set_defaults_def py_def_def py_pass_def py_bind_return_left)

lemma setup_ui_is_bind:
  "CompSettings_setup_ui B = py_bind (AbstractToolbarSettings_setup_ui B) (\<lambda>_. py_return PyNone)"
  by (simp add: CompSettings_setup_ui_def py_def_def expr_stmt_def py_bind_assoc
      py_bind_return_left)

lemma in_setup_ui:
  "x \<in> CompSettings_setup_ui B s \<longleftrightarrow>
     (\<exists>e s'. (Raise e, s') \<in> AbstractToolbarSettings_setup_ui B s \<and> x = (Raise e, s')) \<or>
     (\<exists>v s'. (Return v, s') \<in> AbstractToolbarSettings_setup_ui B s \<and> x = (Return PyNone, s'))"
  by (simp add: setup_ui_is_bind in_py_bind py_return_def)

text \<open>
  The override and the base method can be told apart by the returned value only: the
  override returns \<^verbatim>\<open>None\<close> whatever the base method returned.
\<close>

lemma in_observable:
  "(eo, s') \<in> observable R \<longleftrightarrow> (\<exists>r. (r, s') \<in> R \<and> raised r = eo)"
  unfolding observable_def by force

lemma observable_setup_ui:
  "observable (CompSettings_setup_ui B s) = observable (AbstractToolbarSettings_setup_ui B s)"
proof (rule set_eqI)
  fix x :: "'a option \<times> 'b"
  obtain eo s' where x: "x = (eo, s')" by (cases x)
  show "x \<in> observable (CompSettings_setup_ui B s)
      \<longleftrightarrow> x \<in> observable (AbstractToolbarSettings_setup_ui B s)"
  proof
    assume "x \<in> observable (CompSettings_setup_ui B s)"
    then obtain r where r: "(r, s') \<in> CompSettings_setup_ui B s" "raised r = eo"
      unfolding x in_observable by blast
    from r(1) consider
      (exn) e where "(Raise e, s') \<in> AbstractToolbarSettings_setup_ui B s" "r = Raise e"
      | (ret) v where "(Return v, s') \<in> AbstractToolbarSettings_setup_ui B s" "r = Return PyNone"
      unfolding in_setup_ui by auto
    then show "x \<in> observable (AbstractToolbarSettings_setup_ui B s)"
    proof cases
      case exn
      with r(2) show ?thesis unfolding x in_observable by auto
    next
      case ret
      with r(2) have "raised (Return v) = eo" by simp
      with ret(1) show ?thesis unfolding x in_observable by blast
    qed
  next
    assume "x \<in> observable (AbstractToolbarSettings_setup_ui B s)"
    then obtain r where r: "(r, s') \<in> AbstractToolbarSettings_setup_ui B s" "raised r = eo"
      unfolding x in_observable by blast
    show "x \<in> observable (CompSettings_setup_ui B s)"
    proof (cases r)
      case (Raise e)
      with r have "(Raise e, s') \<in> CompSettings_setup_ui B s" "raised (Raise e) = eo"
        by (auto simp: in_setup_ui)
      then show ?thesis unfolding x in_observable by blast
    next
      case (Return v)
      with r have "(Return PyNone, s') \<in> CompSettings_setup_ui B s"
        and "raised (Return (PyNone :: 'c pyvalue)) = eo"
        by (auto simp: in_setup_ui)
      then show ?thesis unfolding x in_observable by blast
    qed
  qed
qed


section \<open>Sequences of calls\<close>

lemma bind_set_defaults: "py_bind (CompSettings_set_defaults B) (\<lambda>_. m) = m"
  by (simp add: set_defaults_is_return py_bind_return_left)

lemma run_append: "run B c (hs @ hs') = py_bind (run B c hs) (\<lambda>_. run B c hs')"
  by (induction hs) (simp_all add: py_bind_return_left py_bind_assoc)

lemma run_drop_set_defaults: "run B CompSettings_cls (Set_defaults # hs) = run B CompSettings_cls hs"
  by (simp add: bind_set_defaults)

lemma run_setup_ui:
  "run B CompSettings_cls (Setup_ui # hs)
     = py_bind (AbstractToolbarSettings_setup_ui B) (\<lambda>_. run B CompSettings_cls hs)"
  by (simp add: setup_ui_is_bind py_bind_assoc py_bind_return_left)

text \<open>
  A sequence of calls on a \<^verbatim>\<open>CompSettings\<close> instance is the sequence of its
  \<^verbatim>\<open>setup_ui\<close> calls on an instance of the base class.
\<close>

lemma run_on_base:
  "run B CompSettings_cls hs = run B AbstractToolbarSettings_cls (filter (\<lambda>h. h = Setup_ui) hs)"
proof (induction hs)
  case Nil
  show ?case by simp
next
  case (Cons h hs)
  show ?case
  proof (cases h)
    case Setup_ui
    have "run B CompSettings_cls (h # hs)
        = py_bind (AbstractToolbarSettings_setup_ui B) (\<lambda>_. run B CompSettings_cls hs)"
      unfolding Setup_ui by (rule run_setup_ui)
    also have "\<dots> = run B AbstractToolbarSettings_cls (filter (\<lambda>h. h = Setup_ui) (h # hs))"
      by (simp add: Setup_ui Cons.IH)
    finally show ?thesis .
  next
    case Set_defaults
    then show ?thesis by (simp add: bind_set_defaults Cons.IH)
  qed
qed

lemma filter_setup_replicate:
  "filter (\<lambda>h. h = Setup_ui) hs = replicate (count_list hs Setup_ui) Setup_ui"
  by (induction hs) auto

lemma snd_observable: "snd ` observable R = snd ` R"
  unfolding observable_def by force

lemma states_setup_ui:
  "snd ` CompSettings_setup_ui B s = snd ` AbstractToolbarSettings_setup_ui B s"
proof -
  have "snd ` CompSettings_setup_ui B s = snd ` observable (CompSettings_setup_ui B s)"
    by (simp only: snd_observable)
  also have "\<dots> = snd ` observable (AbstractToolbarSettings_setup_ui B s)"
    by (simp only: observable_setup_ui)
  also have "\<dots> = snd ` AbstractToolbarSettings_setup_ui B s"
    by (simp only: snd_observable)
  finally show ?thesis .
qed

section \<open>Evaluation on the concrete base classes\<close>

lemma counting_setup_ui: "CompSettings_setup_ui counting_base n = {(Return PyNone, Suc n)}"
  by (simp add: setup_ui_is_bind py_bind_def py_return_def counting_base_def)

lemma failing_setup_ui_returns:
  "AbstractToolbarSettings_setup_ui failing_base 0 = {(Return (PyObj ()), 1)}
   \<and> CompSettings_setup_ui failing_base 0 = {(Return PyNone, 1)}"
  by (simp add: setup_ui_is_bind py_bind_def py_return_def failing_base_def)

lemma failing_setup_ui_raises:
  "AbstractToolbarSettings_setup_ui failing_base 2 = {(Raise ''RuntimeError'', 3)}
   \<and> CompSettings_setup_ui failing_base 2 = {(Raise ''RuntimeError'', 3)}"
  by (simp add: setup_ui_is_bind py_bind_def py_return_def failing_base_def)

lemma counting_set_defaults:
  "invoke counting_base AbstractToolbarSettings_cls Set_defaults 5 = {(Return PyNone, 0)}
   \<and> invoke counting_base CompSettings_cls Set_defaults 5 = {(Return PyNone, 5)}"
  by (simp add: set_defaults_is_return py_return_def counting_base_def)

text \<open>
  What \<^verbatim>\<open>__slots__ = ()\<close> is there for: a class body without it would give the
  instances a \<^verbatim>\<open>__dict__\<close> and a \<^verbatim>\<open>__weakref__\<close> that the base class's
  instances do not have.
\<close>

lemma counting_layout:
  "CompSettings_layout counting_base
     = \<lparr>slot_names = {''vlayout''}, has_dict = False, has_weakref = False\<rparr>
   \<and> extend_layout (AbstractToolbarSettings_layout counting_base) NoSlots
     = \<lparr>slot_names = {''vlayout''}, has_dict = True, has_weakref = True\<rparr>"
  by (simp add: CompSettings_layout_def CompSettings_slots_def counting_base_def)

section \<open>The properties of the specification\<close>

text \<open>
  C1. From every state (so from every state in which the base class's setup succeeds),
  \<^verbatim>\<open>CompSettings.setup_ui\<close> has exactly the observable results of
  \<^verbatim>\<open>AbstractToolbarSettings.setup_ui\<close> alone: the same exceptions or normal
  completions, each with the same final state. The override adds no effect of its own.
\<close>

theorem setup_ui_refines_base:
  "observable (CompSettings_setup_ui B s) = observable (AbstractToolbarSettings_setup_ui B s)
   \<and> snd ` CompSettings_setup_ui B s = snd ` AbstractToolbarSettings_setup_ui B s"
  using observable_setup_ui [of B s] states_setup_ui [of B s] by (rule conjI)

text \<open>
  C2. From every state, \<^verbatim>\<open>set_defaults\<close> has one possible result: it returns
  \<^verbatim>\<open>None\<close> and the state after the call is the state before it.
\<close>

theorem set_defaults_no_effect:
  "CompSettings_set_defaults B s = {(Return PyNone, s)}"
  by (simp add: set_defaults_is_return py_return_def)

text \<open>
  C3. In any sequence of calls of the two hooks, a \<^verbatim>\<open>set_defaults\<close> call can be
  deleted without changing the possible results of the sequence, wherever it stands among
  the \<^verbatim>\<open>setup_ui\<close> calls; a call of it never raises and leaves the state as it
  was. In particular \<^verbatim>\<open>setup_ui; set_defaults; set_defaults\<close> and
  \<^verbatim>\<open>setup_ui; set_defaults\<close> have the results of \<^verbatim>\<open>setup_ui\<close> alone.
  The state \<open>s\<close> is arbitrary, so it stands for any state the construction of the
  panel leaves.
\<close>

theorem set_defaults_calls_unobservable:
  "run B CompSettings_cls (hs @ Set_defaults # hs') s = run B CompSettings_cls (hs @ hs') s
   \<and> run B CompSettings_cls [Setup_ui, Set_defaults] s = run B CompSettings_cls [Setup_ui] s
   \<and> run B CompSettings_cls [Setup_ui, Set_defaults, Set_defaults] s
       = run B CompSettings_cls [Setup_ui] s
   \<and> (Raise e, s') \<notin> invoke B CompSettings_cls Set_defaults s
   \<and> snd ` invoke B CompSettings_cls Set_defaults s = {s}"
proof -
  have drop: "run B CompSettings_cls (hs @ Set_defaults # hs') = run B CompSettings_cls (hs @ hs')"
    for hs hs'
    by (simp only: run_append [of B _ hs] run_drop_set_defaults)
  have one: "run B CompSettings_cls [Setup_ui, Set_defaults] = run B CompSettings_cls [Setup_ui]"
    using drop [of "[Setup_ui]" "[]"] by simp
  have two: "run B CompSettings_cls [Setup_ui, Set_defaults, Set_defaults]
      = run B CompSettings_cls [Setup_ui]"
    using drop [of "[Setup_ui]" "[Set_defaults]"] one by simp
  have call: "invoke B CompSettings_cls Set_defaults s = {(Return PyNone, s)}"
    by (simp add: set_defaults_is_return py_return_def)
  show ?thesis
  proof (intro conjI)
    show "run B CompSettings_cls (hs @ Set_defaults # hs') s = run B CompSettings_cls (hs @ hs') s"
      by (simp only: drop)
    show "run B CompSettings_cls [Setup_ui, Set_defaults] s = run B CompSettings_cls [Setup_ui] s"
      by (simp only: one)
    show "run B CompSettings_cls [Setup_ui, Set_defaults, Set_defaults] s
        = run B CompSettings_cls [Setup_ui] s"
      by (simp only: two)
    show "(Raise e, s') \<notin> invoke B CompSettings_cls Set_defaults s"
      unfolding call by simp
    show "snd ` invoke B CompSettings_cls Set_defaults s = {s}"
      unfolding call by simp
  qed
qed

text \<open>
  C4. \<^verbatim>\<open>set_defaults\<close> never raises. \<^verbatim>\<open>setup_ui\<close> raises an exception
  \<open>e\<close> in state \<open>s'\<close> exactly when the base class's \<^verbatim>\<open>setup_ui\<close> does:
  nothing is caught, nothing is added, the exception is the base's own. It returns in
  state \<open>s'\<close> exactly when the base method does.
\<close>

theorem no_exception_of_its_own:
  "(Raise e, s') \<notin> CompSettings_set_defaults B s
   \<and> ((Raise e, s') \<in> CompSettings_setup_ui B s
        \<longleftrightarrow> (Raise e, s') \<in> AbstractToolbarSettings_setup_ui B s)
   \<and> ((\<exists>v. (Return v, s') \<in> CompSettings_setup_ui B s)
        \<longleftrightarrow> (\<exists>v. (Return v, s') \<in> AbstractToolbarSettings_setup_ui B s))"
proof (intro conjI)
  show "(Raise e, s') \<notin> CompSettings_set_defaults B s"
    by (simp add: set_defaults_is_return py_return_def)
  show "(Raise e, s') \<in> CompSettings_setup_ui B s
      \<longleftrightarrow> (Raise e, s') \<in> AbstractToolbarSettings_setup_ui B s"
    by (simp add: in_setup_ui)
  show "(\<exists>v. (Return v, s') \<in> CompSettings_setup_ui B s)
      \<longleftrightarrow> (\<exists>v. (Return v, s') \<in> AbstractToolbarSettings_setup_ui B s)"
    by (auto simp: in_setup_ui)
qed

text \<open>
  C5. The instance layout of \<^verbatim>\<open>CompSettings\<close> is the instance layout of its base
  class: no slot, no \<^verbatim>\<open>__dict__\<close> and no \<^verbatim>\<open>__weakref__\<close> is added. The
  layout is fixed by the class declaration and is no part of the state the hooks work on,
  so it is the same before and after every call. On the instance itself, whatever
  attributes \<open>attrs\<close> reads off a state: \<^verbatim>\<open>set_defaults\<close> leaves them as they
  are, and \<^verbatim>\<open>setup_ui\<close> leaves what the base class's \<^verbatim>\<open>setup_ui\<close> leaves.
\<close>

theorem no_additional_fields:
  "CompSettings_layout B = AbstractToolbarSettings_layout B
   \<and> attrs ` snd ` CompSettings_set_defaults B s = {attrs s}
   \<and> attrs ` snd ` CompSettings_setup_ui B s = attrs ` snd ` AbstractToolbarSettings_setup_ui B s"
proof (intro conjI)
  show "CompSettings_layout B = AbstractToolbarSettings_layout B"
    by (simp add: CompSettings_layout_def CompSettings_slots_def)
  show "attrs ` snd ` CompSettings_set_defaults B s = {attrs s}"
    by (simp add: set_defaults_is_return py_return_def)
  show "attrs ` snd ` CompSettings_setup_ui B s
      = attrs ` snd ` AbstractToolbarSettings_setup_ui B s"
    by (simp only: states_setup_ui)
qed

text \<open>
  C6, as stated, fails: \<^verbatim>\<open>setup_ui\<close> runs the base class's \<^verbatim>\<open>setup_ui\<close>,
  and where that is not idempotent neither is the override. With a base method that adds
  one widget per call, two calls leave two widgets and one call leaves one.
\<close>

theorem setup_ui_twice_counterexample:
  "snd ` run counting_base CompSettings_cls [Setup_ui, Setup_ui] 0
     \<noteq> snd ` run counting_base CompSettings_cls [Setup_ui] 0"
  by (simp add: counting_setup_ui py_bind_def py_return_def)

text \<open>
  C6, amended. \<^verbatim>\<open>set_defaults\<close> is idempotent, and repeated calls have no
  ordering dependency: the results of any sequence of calls of the two hooks on a
  \<^verbatim>\<open>CompSettings\<close> instance depend only on the number of \<^verbatim>\<open>setup_ui\<close>
  calls in it, and are the results of that many calls of the base class's
  \<^verbatim>\<open>setup_ui\<close>. So \<^verbatim>\<open>setup_ui\<close> twice is \<^verbatim>\<open>setup_ui\<close> once
  exactly where that holds of the base class's method.
\<close>

theorem repeated_calls_depend_on_setup_ui_only:
  "run B CompSettings_cls [Set_defaults, Set_defaults] s = run B CompSettings_cls [Set_defaults] s
   \<and> run B CompSettings_cls hs s
       = run B CompSettings_cls (replicate (count_list hs Setup_ui) Setup_ui) s
   \<and> run B CompSettings_cls hs s
       = run B AbstractToolbarSettings_cls (replicate (count_list hs Setup_ui) Setup_ui) s
   \<and> (run B CompSettings_cls [Setup_ui, Setup_ui] s = run B CompSettings_cls [Setup_ui] s
        \<longleftrightarrow> run B AbstractToolbarSettings_cls [Setup_ui, Setup_ui] s
              = run B AbstractToolbarSettings_cls [Setup_ui] s)"
proof (intro conjI)
  show "run B CompSettings_cls [Set_defaults, Set_defaults] s
      = run B CompSettings_cls [Set_defaults] s"
    by (simp only: run_drop_set_defaults)
  have same: "run B CompSettings_cls [Setup_ui, Setup_ui] = run B AbstractToolbarSettings_cls [Setup_ui, Setup_ui]"
    "run B CompSettings_cls [Setup_ui] = run B AbstractToolbarSettings_cls [Setup_ui]"
    by (simp_all only: run_on_base [of B] filter.simps simp_thms if_True)
  show "run B CompSettings_cls [Setup_ui, Setup_ui] s = run B CompSettings_cls [Setup_ui] s
      \<longleftrightarrow> run B AbstractToolbarSettings_cls [Setup_ui, Setup_ui] s
            = run B AbstractToolbarSettings_cls [Setup_ui] s"
    by (simp only: same)
  have on_base: "run B CompSettings_cls hs
      = run B AbstractToolbarSettings_cls (replicate (count_list hs Setup_ui) Setup_ui)" for hs
    by (simp only: run_on_base [of B hs] filter_setup_replicate)
  show "run B CompSettings_cls hs s
      = run B AbstractToolbarSettings_cls (replicate (count_list hs Setup_ui) Setup_ui) s"
    by (simp only: on_base [of hs])
  have "count_list (replicate n Setup_ui) Setup_ui = n" for n
    by (induction n) simp_all
  then have "run B CompSettings_cls (replicate (count_list hs Setup_ui) Setup_ui)
      = run B AbstractToolbarSettings_cls (replicate (count_list hs Setup_ui) Setup_ui)"
    using on_base [of "replicate (count_list hs Setup_ui) Setup_ui"] by simp
  then show "run B CompSettings_cls hs s
      = run B CompSettings_cls (replicate (count_list hs Setup_ui) Setup_ui) s"
    by (simp only: on_base [of hs])
qed

text \<open>
  C8. Called by the host on a \<^verbatim>\<open>CompSettings\<close> instance, \<^verbatim>\<open>set_defaults\<close>
  returns \<^verbatim>\<open>None\<close> in the unchanged state whatever the base class's
  \<^verbatim>\<open>set_defaults\<close> is: replacing the base method by any \<open>f\<close> changes nothing,
  and the call agrees with the same call on a base instance only where the base method
  itself does nothing and returns \<^verbatim>\<open>None\<close>. \<^verbatim>\<open>setup_ui\<close>, unlike it, runs
  the base method.
\<close>

theorem set_defaults_not_delegated:
  "invoke B CompSettings_cls Set_defaults s = {(Return PyNone, s)}
   \<and> invoke (B\<lparr>AbstractToolbarSettings_set_defaults := f\<rparr>) CompSettings_cls Set_defaults
       = invoke B CompSettings_cls Set_defaults
   \<and> (invoke B CompSettings_cls Set_defaults s = invoke B AbstractToolbarSettings_cls Set_defaults s
        \<longleftrightarrow> AbstractToolbarSettings_set_defaults B s = {(Return PyNone, s)})
   \<and> invoke B CompSettings_cls Setup_ui
       = py_bind (invoke B AbstractToolbarSettings_cls Setup_ui) (\<lambda>_. py_return PyNone)"
proof (intro conjI)
  show call: "invoke B CompSettings_cls Set_defaults s = {(Return PyNone, s)}"
    by (simp add: set_defaults_is_return py_return_def)
  show "invoke (B\<lparr>AbstractToolbarSettings_set_defaults := f\<rparr>) CompSettings_cls Set_defaults
      = invoke B CompSettings_cls Set_defaults"
    by (simp add: set_defaults_is_return)
  show "invoke B CompSettings_cls Set_defaults s = invoke B AbstractToolbarSettings_cls Set_defaults s
      \<longleftrightarrow> AbstractToolbarSettings_set_defaults B s = {(Return PyNone, s)}"
    unfolding call by auto
  show "invoke B CompSettings_cls Setup_ui
      = py_bind (invoke B AbstractToolbarSettings_cls Setup_ui) (\<lambda>_. py_return PyNone)"
    by (simp add: setup_ui_is_bind)
qed

text \<open>
  C9. Where the base class's \<^verbatim>\<open>setup_ui\<close> has at most one possible result from a
  state, so has the override: two runs from that state end in the same state with the
  same exception or return. \<^verbatim>\<open>set_defaults\<close> has at most one possible result from
  every state.
\<close>

theorem hooks_deterministic:
  assumes "deterministic_at (AbstractToolbarSettings_setup_ui B) s"
  shows "deterministic_at (CompSettings_setup_ui B) s
    \<and> deterministic_at (CompSettings_set_defaults B) s'"
proof
  show "deterministic_at (CompSettings_setup_ui B) s"
    unfolding deterministic_at_def
  proof (intro ballI)
    fix x y
    assume x: "x \<in> CompSettings_setup_ui B s" and y: "y \<in> CompSettings_setup_ui B s"
    from x obtain rx sx where bx: "(rx, sx) \<in> AbstractToolbarSettings_setup_ui B s"
      and x_eq: "x = (case rx of Raise e \<Rightarrow> Raise e | Return _ \<Rightarrow> Return PyNone, sx)"
      unfolding in_setup_ui by auto
    from y obtain ry sy where "by": "(ry, sy) \<in> AbstractToolbarSettings_setup_ui B s"
      and y_eq: "y = (case ry of Raise e \<Rightarrow> Raise e | Return _ \<Rightarrow> Return PyNone, sy)"
      unfolding in_setup_ui by auto
    from assms bx "by" have "(rx, sx) = (ry, sy)"
      unfolding deterministic_at_def by blast
    with x_eq y_eq show "x = y" by simp
  qed
  show "deterministic_at (CompSettings_set_defaults B) s'"
    by (simp add: deterministic_at_def set_defaults_is_return py_return_def)
qed

theorem hooks_deterministic_witness:
  "deterministic_at (AbstractToolbarSettings_setup_ui counting_base) 0
   \<and> deterministic_at (CompSettings_setup_ui counting_base) 0
   \<and> deterministic_at (CompSettings_set_defaults counting_base) 0"
proof -
  have base: "deterministic_at (AbstractToolbarSettings_setup_ui counting_base) 0"
    by (simp add: deterministic_at_def counting_base_def)
  from hooks_deterministic [OF base, of 0] base show ?thesis by simp
qed

end
